theory Spec2Isabelle
  imports Complex_Main
begin

section \<open>The API client (lib/api.ts)\<close>

text \<open>
  The frontend of AuraPilot talks to the backend through one axios instance. What a
  handler sends is modelled as a value: the request it builds. What the backend answers
  is an argument of the handler: the outcome of the awaited promise, a rejection
  (\<open>Inl\<close>) or the response's \<open>data\<close> (\<open>Inr\<close>).

  Strings are lists of 8-bit characters; JavaScript numbers that carry identifiers and
  counts are integers, the temperature is a real number.
\<close>

text \<open>A JSON value, as \<open>response.data\<close> and a request body hold it.\<close>

datatype json =
    JNull
  | JBool bool
  | JNum real
  | JStr string
  | JArr "json list"
  | JObj "(string \<times> json) list"

text \<open>
  Reading a property \<open>data.k\<close> of a response: \<open>null\<close> has no properties and the
  access throws a TypeError; an object gives the value of its key (the last one when
  the key is repeated, as \<open>JSON.parse\<close> keeps it) or \<open>undefined\<close> (\<open>None\<close>); the
  other values have none of the property names the handlers read.
\<close>

datatype js_error = TypeError

fun member_of :: "string \<Rightarrow> json \<Rightarrow> js_error + json option" where
  "member_of k JNull = Inl TypeError"
| "member_of k (JObj kvs) = Inr (map_of (rev kvs) k)"
| "member_of k v = Inr None"

text \<open>
  The routes of the backend under \<open>/api/v1\<close>:
  \<open>/auth/login\<close>, \<open>/auth/me\<close>, \<open>/chat/query\<close> and \<open>/documents/{id}/reindex\<close>.
\<close>

datatype endpoint = AuthLogin | AuthMe | ChatQuery | DocumentsReindex int

datatype verb = GET | POST

record request =
  verb :: verb
  endpoint :: endpoint
  body :: "json option"
  authorization :: "string option"

type_synonym storage = "string \<rightharpoonup> string"

text \<open>
  The request interceptor: \<open>const token = localStorage.getItem('access_token');
  if (token) config.headers.Authorization = `Bearer ${token}`\<close>. The empty string is
  falsy.
\<close>

definition bearer :: "storage \<Rightarrow> string option" where
  "bearer ls =
     (case ls ''access_token'' of
        None \<Rightarrow> None
      | Some t \<Rightarrow> if t = [] then None else Some (''Bearer '' @ t))"

definition api_post :: "storage \<Rightarrow> endpoint \<Rightarrow> json \<Rightarrow> request" where
  "api_post ls ep b = \<lparr>verb = POST, endpoint = ep, body = Some b, authorization = bearer ls\<rparr>"

definition api_get :: "storage \<Rightarrow> endpoint \<Rightarrow> request" where
  "api_get ls ep = \<lparr>verb = GET, endpoint = ep, body = None, authorization = bearer ls\<rparr>"

text \<open>\<open>authAPI.login\<close>, \<open>authAPI.getMe\<close>, \<open>authAPI.logout\<close>.\<close>

definition authAPI_login :: "storage \<Rightarrow> string \<Rightarrow> string \<Rightarrow> request" where
  "authAPI_login ls username password =
     api_post ls AuthLogin (JObj [(''username'', JStr username), (''password'', JStr password)])"

definition authAPI_getMe :: "storage \<Rightarrow> request" where
  "authAPI_getMe ls = api_get ls AuthMe"

definition authAPI_logout :: "storage \<Rightarrow> storage" where
  "authAPI_logout ls = ls(''access_token'' := None)"

text \<open>
  \<open>chatAPI.query(query, temperature = 0.7, includeSources = true)\<close> posts
  \<open>{ query, temperature, include_sources: includeSources }\<close>.
\<close>

definition chatAPI_query :: "storage \<Rightarrow> string \<Rightarrow> real \<Rightarrow> bool \<Rightarrow> request" where
  "chatAPI_query ls query temperature includeSources =
     api_post ls ChatQuery
       (JObj [(''query'', JStr query), (''temperature'', JNum temperature),
              (''include_sources'', JBool includeSources)])"

text \<open>\<open>documentAPI.reindex(id)\<close> posts an empty object to \<open>/documents/{id}/reindex\<close>.\<close>

definition documentAPI_reindex :: "storage \<Rightarrow> int \<Rightarrow> request" where
  "documentAPI_reindex ls doc_id = api_post ls (DocumentsReindex doc_id) (JObj [])"

text \<open>
  A rejected call. The handlers read one thing of the error,
  \<open>err.response?.data?.detail\<close>: whatever JSON value the response body of the
  error has under \<open>detail\<close> (a string for most errors of the backend, an array for
  a validation error), or \<open>undefined\<close> (\<open>None\<close>) when the error has no response, no
  data or no detail.
\<close>

datatype api_error = ApiError (detail: "json option")

text \<open>
  JavaScript's truthiness of a JSON value: \<open>null\<close>, \<open>false\<close>, \<open>0\<close> and the empty
  string are falsy, every other value is truthy.
\<close>

fun truthy :: "json \<Rightarrow> bool" where
  "truthy JNull = False"
| "truthy (JBool b) = b"
| "truthy (JNum x) = (x \<noteq> 0)"
| "truthy (JStr t) = (t \<noteq> [])"
| "truthy (JArr vs) = True"
| "truthy (JObj kvs) = True"

text \<open>
  What a handler does besides updating its state, in order. \<open>RenderError\<close> is an
  exception thrown by a state updater when React runs it, after the handler's call of
  the setter has returned.
\<close>

datatype effect = PreventDefault | Request request | ConsoleError string | RenderError js_error

text \<open>How an async handler ends: its promise resolves, or rejects with the error thrown.\<close>

datatype completion = Returned | Threw api_error

section \<open>The chat component (components/ChatInterface.tsx)\<close>

datatype role = User | Assistant

text \<open>
  A message of the conversation. The interface declares \<open>content: string\<close> and an
  optional \<open>sources\<close>; an assistant message takes both from the response as they come,
  so they are JSON values here, \<open>None\<close> for \<open>undefined\<close>.
\<close>

record message =
  role :: role
  content :: "json option"
  sources :: "json option"

record chat_state =
  messages :: "message list"
  input :: string
  loading :: bool

text \<open>
  \<open>String.prototype.trim\<close>: white space and line terminators are removed at both
  ends. Among the 8-bit characters these are TAB, LF, VT, FF, CR, SP and NBSP.
\<close>

definition is_space :: "char \<Rightarrow> bool" where
  "is_space c \<longleftrightarrow> (of_char c :: nat) \<in> {9, 10, 11, 12, 13, 32, 160}"

definition trim :: "string \<Rightarrow> string" where
  "trim s = rev (dropWhile is_space (rev (dropWhile is_space s)))"

text \<open>The guard \<open>if (!input.trim() || loading) return;\<close>.\<close>

definition send_blocked :: "chat_state \<Rightarrow> bool" where
  "send_blocked s \<longleftrightarrow> trim (input s) = [] \<or> loading s"

definition user_message :: "string \<Rightarrow> message" where
  "user_message t = \<lparr>role = User, content = Some (JStr t), sources = None\<rparr>"

definition failure_message :: message where
  "failure_message =
     \<lparr>role = Assistant,
      content = Some (JStr ''Sorry, there was an error processing your message. Please try again.''),
      sources = None\<rparr>"

text \<open>
  Before the await: the user's message is appended, the input cleared and the loading
  flag raised.
\<close>

definition send_start :: "chat_state \<Rightarrow> chat_state" where
  "send_start s =
     s\<lparr>messages := messages s @ [user_message (trim (input s))], input := [], loading := True\<rparr>"

text \<open>
  After the await. When the call rejects, the \<open>catch\<close> block logs the error and
  appends the fixed failure message. When it resolves, the \<open>try\<close> block passes
  \<open>setMessages\<close> an updater that appends the assistant's message; the updater reads
  \<open>data.response\<close> and \<open>data.sources\<close> when React runs it, outside the \<open>try\<close>, so
  for a \<open>null\<close> body its TypeError is not caught by the handler: nothing is appended
  and nothing is logged. The \<open>finally\<close> block lowers the loading flag in every case.
  Every update is functional (\<open>prev => [...prev, m]\<close>): it appends to the list as it
  is then.
\<close>

definition append_failure :: "chat_state \<Rightarrow> chat_state \<times> effect list" where
  "append_failure s =
     (s\<lparr>messages := messages s @ [failure_message], loading := False\<rparr>,
      [ConsoleError ''Error sending message:''])"

definition updater_threw :: "js_error \<Rightarrow> chat_state \<Rightarrow> chat_state \<times> effect list" where
  "updater_threw e s = (s\<lparr>loading := False\<rparr>, [RenderError e])"

definition send_settle :: "api_error + json \<Rightarrow> chat_state \<Rightarrow> chat_state \<times> effect list" where
  "send_settle outcome s =
     (case outcome of
        Inl err \<Rightarrow> append_failure s
      | Inr data \<Rightarrow>
          (case member_of ''response'' data of
             Inl e \<Rightarrow> updater_threw e s
           | Inr r \<Rightarrow>
               (case member_of ''sources'' data of
                  Inl e \<Rightarrow> updater_threw e s
                | Inr srcs \<Rightarrow>
                    (s\<lparr>messages := messages s @ [\<lparr>role = Assistant, content = r, sources = srcs\<rparr>],
                       loading := False\<rparr>, []))))"

text \<open>
  \<open>handleSendMessage(e?)\<close>, run from the click to the end with no other update in
  between. \<open>ev\<close> says whether an event was passed (the form's submit passes one, the
  Enter key none); \<open>outcome\<close> is what \<open>chatAPI.query(userMessage, 0.7, true)\<close>
  settles to. The result is the new state, the effects in order, and how the handler
  ended: it throws nothing itself, so it always returns.
\<close>

definition handleSendMessage ::
  "storage \<Rightarrow> bool \<Rightarrow> api_error + json \<Rightarrow> chat_state \<Rightarrow> chat_state \<times> effect list \<times> completion" where
  "handleSendMessage ls ev outcome s =
     (let pd = (if ev then [PreventDefault] else []) in
      if send_blocked s then (s, pd, Returned)
      else
        (let userMessage = trim (input s);
             (s', fx) = send_settle outcome (send_start s)
         in (s', pd @ [Request (chatAPI_query ls userMessage 0.7 True)] @ fx, Returned)))"

section \<open>The auth store (lib/store.ts)\<close>

record user_info =
  user_id :: int
  email :: string
  username :: string
  full_name :: string
  is_active :: bool
  user_created_at :: string

text \<open>
  The store's state: \<open>user: User | null\<close>, \<open>token: string | null\<close>, \<open>isLoading\<close>
  and \<open>error: string | null\<close>, with \<open>None\<close> for \<open>null\<close>. The error is assigned
  from the caught error (\<open>err: any\<close>) unchecked, so it holds a JSON value. The actions
  also read and write the browser's \<open>localStorage\<close>, so an action maps a store and a
  storage to a store and a storage.
\<close>

record auth_store =
  user :: "user_info option"
  token :: "string option"
  isLoading :: bool
  error :: "json option"

text \<open>
  The data of a successful login, at the types of the store's fields it is assigned to:
  \<open>data.access_token\<close>, and \<open>data.user\<close> when the response carries one.
\<close>

record login_response =
  access_token :: string
  login_user :: "user_info option"

text \<open>
  \<open>err.response?.data?.detail || fallback\<close>: the detail when it is truthy, whatever
  JSON value it is, and the fallback string otherwise.
\<close>

definition detail_or :: "api_error \<Rightarrow> string \<Rightarrow> json" where
  "detail_or err fallback =
     (case detail err of
        None \<Rightarrow> JStr fallback
      | Some d \<Rightarrow> if truthy d then d else JStr fallback)"

text \<open>The \<open>catch\<close> block of \<open>login\<close>: the error is recorded and thrown again.\<close>

definition login_failed ::
  "auth_store \<Rightarrow> storage \<Rightarrow> effect list \<Rightarrow> api_error
     \<Rightarrow> (auth_store \<times> storage) \<times> effect list \<times> completion" where
  "login_failed st ls fx err =
     ((st\<lparr>error := Some (detail_or err ''Login failed''), isLoading := False\<rparr>, ls), fx, Threw err)"

text \<open>
  \<open>login(username, password)\<close>. \<open>login_outcome\<close> is what \<open>authAPI.login\<close> settles
  to, \<open>me_outcome\<close> what \<open>authAPI.getMe\<close> settles to when the login response has no
  user and the store asks for it.
\<close>

definition login ::
  "string \<Rightarrow> string \<Rightarrow> api_error + login_response \<Rightarrow> api_error + user_info
     \<Rightarrow> auth_store \<times> storage \<Rightarrow> (auth_store \<times> storage) \<times> effect list \<times> completion" where
  "login uname password login_outcome me_outcome w =
     (let (st, ls) = w;
          st1 = st\<lparr>isLoading := True, error := None\<rparr>;
          req = Request (authAPI_login ls uname password)
      in case login_outcome of
           Inl err \<Rightarrow> login_failed st1 ls [req] err
         | Inr data \<Rightarrow>
             (let ls2 = ls(''access_token'' \<mapsto> access_token data);
                  st2 = st1\<lparr>token := Some (access_token data)\<rparr>
              in case login_user data of
                   Some u \<Rightarrow> ((st2\<lparr>user := Some u, isLoading := False\<rparr>, ls2), [req], Returned)
                 | None \<Rightarrow>
                     (let req2 = Request (authAPI_getMe ls2)
                      in case me_outcome of
                           Inr u \<Rightarrow>
                             ((st2\<lparr>user := Some u, isLoading := False\<rparr>, ls2), [req, req2], Returned)
                         | Inl err \<Rightarrow> login_failed st2 ls2 [req, req2] err)))"

text \<open>\<open>logout\<close>: \<open>authAPI.logout(); set({ user: null, token: null })\<close>.\<close>

definition logout :: "auth_store \<times> storage \<Rightarrow> auth_store \<times> storage" where
  "logout w = (let (st, ls) = w in (st\<lparr>user := None, token := None\<rparr>, authAPI_logout ls))"

text \<open>
  \<open>checkAuth\<close>: \<open>const token = localStorage.getItem('access_token');
  if (!token) return;\<close> then \<open>getMe\<close>, whose success sets the user and the token read
  and whose failure logs out. The error is swallowed (\<open>catch { ... }\<close>).
\<close>

definition checkAuth ::
  "api_error + user_info \<Rightarrow> auth_store \<times> storage
     \<Rightarrow> (auth_store \<times> storage) \<times> effect list \<times> completion" where
  "checkAuth me_outcome w =
     (let (st, ls) = w
      in case ls ''access_token'' of
           None \<Rightarrow> ((st, ls), [], Returned)
         | Some t \<Rightarrow>
             if t = [] then ((st, ls), [], Returned)
             else
               (case me_outcome of
                  Inr data \<Rightarrow>
                    ((st\<lparr>user := Some data, token := Some t\<rparr>, ls),
                     [Request (authAPI_getMe ls)], Returned)
                | Inl err \<Rightarrow>
                    ((st\<lparr>user := None, token := None\<rparr>, authAPI_logout ls),
                     [Request (authAPI_getMe ls)], Returned)))"

section \<open>The documents page (pages/Documents.tsx)\<close>

text \<open>
  The type the page declares for a document's status,
  \<open>processing_status: 'pending' | 'processing' | 'completed' | 'failed'\<close>, and the
  string each member is.
\<close>

datatype processing_state = Pending | Processing | Completed | Failed

fun status_text :: "processing_state \<Rightarrow> string" where
  "status_text Pending = ''pending''"
| "status_text Processing = ''processing''"
| "status_text Completed = ''completed''"
| "status_text Failed = ''failed''"

text \<open>
  The page of the frontend guide (\<open>app/dashboard/documents/page.tsx\<close> in
  FRONTEND_GUIDE) declares \<open>status: 'processing' | 'indexed' | 'failed'\<close>.
\<close>

datatype guide_status = GuideProcessing | GuideIndexed | GuideFailed

fun guide_status_text :: "guide_status \<Rightarrow> string" where
  "guide_status_text GuideProcessing = ''processing''"
| "guide_status_text GuideIndexed = ''indexed''"
| "guide_status_text GuideFailed = ''failed''"

text \<open>
  A document as the page holds it. The list comes from \<open>response.data\<close> unchecked,
  so the status is the string the backend sent.
\<close>

record document =
  doc_id :: int
  filename :: string
  file_size :: "int option"
  processing_status :: string
  chunk_count :: int
  error_message :: "string option"
  created_at :: string

text \<open>
  \<open>getStatusIcon(status: string)\<close>: a check mark for \<open>completed\<close> and \<open>indexed\<close>,
  a pulsing clock for \<open>pending\<close> and \<open>processing\<close>, an alert for \<open>failed\<close>, and a
  still clock for any other string.
\<close>

datatype status_icon = CheckCircle | ClockPulse | AlertCircle | ClockStill

definition getStatusIcon :: "string \<Rightarrow> status_icon" where
  "getStatusIcon status =
     (if status = ''completed'' \<or> status = ''indexed'' then CheckCircle
      else if status = ''pending'' \<or> status = ''processing'' then ClockPulse
      else if status = ''failed'' then AlertCircle
      else ClockStill)"

text \<open>
  The row of a document: the status is shown as it is, the error line under
  \<open>doc.error_message && ...\<close>, the reindex button under
  \<open>doc.processing_status === 'failed' && ...\<close>.
\<close>

definition status_shown :: "document \<Rightarrow> string" where
  "status_shown doc = processing_status doc"

definition error_shown :: "document \<Rightarrow> bool" where
  "error_shown doc \<longleftrightarrow> (case error_message doc of None \<Rightarrow> False | Some m \<Rightarrow> m \<noteq> [])"

definition reindex_offered :: "document \<Rightarrow> bool" where
  "reindex_offered doc \<longleftrightarrow> processing_status doc = ''failed''"

text \<open>
  The request a row can send for a reindex: the button's \<open>onClick\<close> is
  \<open>handleReindex(doc.id)\<close>, which calls \<open>documentAPI.reindex(id)\<close> with no check of
  its own.
\<close>

definition reindex_action :: "storage \<Rightarrow> document \<Rightarrow> request option" where
  "reindex_action ls doc =
     (if reindex_offered doc then Some (documentAPI_reindex ls (doc_id doc)) else None)"

text \<open>
  Modelled from the spec: the reindex boundary of the backend, which is not among the
  sources. It "accepts \<open>document_id\<close>, requires current \<open>status=failed\<close> or
  \<open>indexed\<close>".
\<close>

definition reindex_permitted :: "string \<Rightarrow> bool" where
  "reindex_permitted status \<longleftrightarrow> status = ''failed'' \<or> status = ''indexed''"

section \<open>The chunker\<close>

text \<open>
  Modelled from the spec: the Chunker of the backend, which is not among the sources.
  "\<open>split(text, chunk_size, overlap)\<close> \<rightarrow> ordered sequence of chunk texts.
  Constraints: \<open>0 \<le> overlap < chunk_size\<close>. Produces chunks by sliding a window of
  \<open>chunk_size\<close> characters across \<open>text\<close>, advancing by \<open>chunk_size - overlap\<close> each
  step; the final chunk may be shorter than \<open>chunk_size\<close>. Empty input text produces
  zero chunks."

  \<open>windows\<close> is the sliding: a window at 0, then at every multiple of the step that
  is still inside the text.
\<close>

function windows :: "nat \<Rightarrow> nat \<Rightarrow> string \<Rightarrow> string list" where
  "windows chunk_size overlap txt =
     (if txt = [] \<or> chunk_size \<le> overlap then []
      else take chunk_size txt # windows chunk_size overlap (drop (chunk_size - overlap) txt))"
  by pat_completeness auto
termination
proof (relation "measure (\<lambda>(chunk_size, overlap, txt). length txt)")
  fix chunk_size overlap :: nat and s :: string
  assume "\<not> (s = [] \<or> chunk_size \<le> overlap)"
  then have "length s \<noteq> 0" and "overlap < chunk_size"
    by auto
  then have "length (drop (chunk_size - overlap) s) < length s"
    unfolding length_drop by arith
  then show "((chunk_size, overlap, drop (chunk_size - overlap) s), (chunk_size, overlap, s))
      \<in> measure (\<lambda>(chunk_size, overlap, txt). length txt)"
    by simp
qed simp

text \<open>
  Modelled from the spec: what the Chunker answers to a configuration outside its
  constraint \<open>0 \<le> overlap < chunk_size\<close>.
\<close>

datatype chunker_error = InvalidConfiguration

text \<open>
  Modelled from the spec: \<open>split(text, chunk_size, overlap)\<close> of the Chunker, the
  windows of the text under a configuration that meets the constraint.
\<close>

definition split :: "string \<Rightarrow> nat \<Rightarrow> nat \<Rightarrow> chunker_error + string list" where
  "split txt chunk_size overlap =
     (if overlap < chunk_size then Inr (windows chunk_size overlap txt)
      else Inl InvalidConfiguration)"

text \<open>
  Modelled from the spec: a chunk of the backend, "\<open>document_id\<close> (owning document),
  \<open>position\<close> (0-based ordinal, defines reading order), \<open>text\<close>".
\<close>

record chunk =
  document_id :: int
  position :: nat
  chunk_text :: string

text \<open>
  Modelled from the spec: the Chunker "splits extracted text into overlapping
  fixed-size chunks, each tagged with an ordinal position": the chunk texts of a
  document, numbered from 0 in their order.
\<close>

definition tag_chunks :: "int \<Rightarrow> string list \<Rightarrow> chunk list" where
  "tag_chunks d texts =
     map (\<lambda>(i, t). \<lparr>document_id = d, position = i, chunk_text = t\<rparr>) (enumerate 0 texts)"

text \<open>
  Modelled from the spec: "concatenating chunk texts (minus overlaps)", the first
  chunk whole and every later one without its first \<open>overlap\<close> characters.
\<close>

fun reassemble :: "nat \<Rightarrow> string list \<Rightarrow> string" where
  "reassemble overlap [] = []"
| "reassemble overlap (c # cs) = c @ concat (map (drop overlap) cs)"

section \<open>The vector index and the sources of an answer\<close>

text \<open>
  Modelled from the spec: the metadata of a record of the Vector Index, an external
  service the backend (not among the sources) calls: "\<open>metadata\<close> {document_id,
  filename, chunk_text, position}".
\<close>

record chunk_meta =
  meta_document_id :: int
  meta_filename :: string
  meta_chunk_text :: string
  meta_position :: nat

text \<open>
  Modelled from the spec: a record of the Vector Index, "\<open>vector_id\<close>, \<open>namespace\<close>
  (= owner_id), \<open>embedding\<close>, \<open>metadata\<close>". The type of an embedding is left open.
\<close>

record 'v vector_record =
  vector_id :: string
  namespace :: string
  embedding :: 'v
  metadata :: chunk_meta

text \<open>
  Modelled from the spec: an entry of a query's answer, "(vector_id, score,
  metadata)".
\<close>

record match =
  matched_id :: string
  score :: real
  matched :: chunk_meta

text \<open>
  Modelled from the spec: the score of a stored record for a query vector. The
  similarity of two embeddings is the provider's, a parameter \<open>sim\<close> here.
\<close>

definition scored :: "('v \<Rightarrow> 'v \<Rightarrow> real) \<Rightarrow> 'v \<Rightarrow> ('v, 'x) vector_record_scheme \<Rightarrow> match" where
  "scored sim qv r = \<lparr>matched_id = vector_id r, score = sim qv (embedding r), matched = metadata r\<rparr>"

text \<open>
  Modelled from the spec: the records a query may return, those of the namespace
  asked ("namespace is a hard isolation boundary") whose score is not below
  \<open>min_score\<close> ("entries below \<open>min_score\<close> are excluded"), in the order in which
  they are stored.
\<close>

definition eligible ::
  "('v \<Rightarrow> 'v \<Rightarrow> real) \<Rightarrow> ('v, 'x) vector_record_scheme list \<Rightarrow> string \<Rightarrow> 'v \<Rightarrow> real \<Rightarrow> match list" where
  "eligible sim idx ns qv min_score =
     filter (\<lambda>m. min_score \<le> score m) (map (scored sim qv) (filter (\<lambda>r. namespace r = ns) idx))"

text \<open>
  Modelled from the spec: "\<open>query(namespace, query_vector, top_k, min_score)\<close> \<rightarrow>
  ordered sequence of (vector_id, score, metadata) sorted by descending similarity
  score; entries below \<open>min_score\<close> are excluded; if fewer than \<open>top_k\<close> records
  satisfy the threshold, return fewer, never pad." Records of equal score keep the
  order in which they are stored.
\<close>

definition index_query ::
  "('v \<Rightarrow> 'v \<Rightarrow> real) \<Rightarrow> ('v, 'x) vector_record_scheme list \<Rightarrow> string \<Rightarrow> 'v \<Rightarrow> nat \<Rightarrow> real \<Rightarrow> match list" where
  "index_query sim idx ns qv top_k min_score =
     take top_k (sort_key (\<lambda>m. - score m) (eligible sim idx ns qv min_score))"

text \<open>
  Modelled from the spec: what a retrieved chunk adds to the context of the Query
  Orchestrator, "their text (each prefixed with its source filename)".
\<close>

definition context_entry :: "match \<Rightarrow> string" where
  "context_entry m = meta_filename (matched m) @ meta_chunk_text (matched m)"

text \<open>
  Modelled from the spec: the walk of the context assembly. "Walk the retrieved chunks
  in descending-score order, concatenating their text into a single context string,
  stopping before the running length would exceed a configured maximum context length;
  do not truncate a chunk mid-text". \<open>used\<close> is the running length; the walk ends at
  the first chunk that does not fit.
\<close>

fun fitting :: "nat \<Rightarrow> nat \<Rightarrow> match list \<Rightarrow> match list" where
  "fitting limit used [] = []"
| "fitting limit used (m # ms) =
     (if used + length (context_entry m) \<le> limit
      then m # fitting limit (used + length (context_entry m)) ms
      else [])"

text \<open>
  Modelled from the spec: the chunks included in the assembled context. "If the first
  (highest-scoring) chunk alone exceeds the limit, truncate only that one chunk to
  fit": that chunk is then the only one included; otherwise the chunks of the walk.
\<close>

definition included :: "nat \<Rightarrow> match list \<Rightarrow> match list" where
  "included limit ms =
     (case ms of
        [] \<Rightarrow> []
      | m # rest \<Rightarrow> if limit < length (context_entry m) then [m] else fitting limit 0 ms)"

text \<open>
  Modelled from the spec: an entry of \<open>retrieved_sources\<close>, "{document_id, filename,
  relevance_score, chunk_text}".
\<close>

record source_entry =
  source_document_id :: int
  source_filename :: string
  relevance_score :: real
  source_text :: string

text \<open>
  Modelled from the spec: a retrieved chunk as a source, "annotated with its
  relevance score and source filename".
\<close>

definition to_source :: "match \<Rightarrow> source_entry" where
  "to_source m =
     \<lparr>source_document_id = meta_document_id (matched m),
      source_filename = meta_filename (matched m),
      relevance_score = score m,
      source_text = meta_chunk_text (matched m)\<rparr>"

text \<open>
  Modelled from the spec: the \<open>retrieved_sources\<close> of the Query Orchestrator, which
  queries the index "in the asking user's namespace for the configured top-K with the
  configured minimum relevance score" and returns sources that mirror "exactly the
  chunks included in the assembled context (not all top-K, only those actually used)".
\<close>

definition retrieved_sources ::
  "('v \<Rightarrow> 'v \<Rightarrow> real) \<Rightarrow> ('v, 'x) vector_record_scheme list \<Rightarrow> string \<Rightarrow> 'v \<Rightarrow> nat \<Rightarrow> real \<Rightarrow> nat
     \<Rightarrow> source_entry list" where
  "retrieved_sources sim idx ns qv top_k min_score limit =
     map to_source (included limit (index_query sim idx ns qv top_k min_score))"

section \<open>Properties of the chat component\<close>

lemma send_settle_rejected:
  "send_settle (Inl err) s =
     (s\<lparr>messages := messages s @ [failure_message], loading := False\<rparr>,
      [ConsoleError ''Error sending message:''])"
  by (simp add: send_settle_def append_failure_def)

lemma send_settle_object:
  "send_settle (Inr (JObj kvs)) s =
     (s\<lparr>messages := messages s @
          [\<lparr>role = Assistant, content = map_of (rev kvs) ''response'',
            sources = map_of (rev kvs) ''sources''\<rparr>],
        loading := False\<rparr>, [])"
  by (simp add: send_settle_def)

text \<open>
  A call that resolves with a \<open>null\<close> body: no message is appended and nothing is
  logged; the loading flag is lowered and the updater's TypeError surfaces when React
  runs it.
\<close>

lemma send_settle_null_body:
  "send_settle (Inr JNull) s = (s\<lparr>loading := False\<rparr>, [RenderError TypeError])"
  by (simp add: send_settle_def updater_threw_def)

lemma send_settle_sends_nothing: "[r. Request r \<leftarrow> snd (send_settle outcome s)] = []"
  by (simp add: send_settle_def append_failure_def updater_threw_def
      split: sum.splits option.splits)

text \<open>
  Claim C1, as the code has it. A send that passes the guard issues exactly one request,
  a POST to \<open>/chat/query\<close> whose body has exactly the fields \<open>query\<close> (the trimmed
  input), \<open>temperature\<close> (0.7) and \<open>include_sources\<close> (true). When the call resolves
  with an object, the assistant message appended takes its content from the field
  \<open>response\<close> of that object and its sources from the field \<open>sources\<close>; the field
  \<open>answer_text\<close> is not read.
\<close>

theorem query_body_and_response_field:
  assumes "trim (input s) \<noteq> []" and "\<not> loading s"
  shows "[r. Request r \<leftarrow> fst (snd (handleSendMessage ls ev outcome s))]
        = [chatAPI_query ls (trim (input s)) 0.7 True]
    \<and> body (chatAPI_query ls (trim (input s)) 0.7 True) =
        Some (JObj [(''query'', JStr (trim (input s))), (''temperature'', JNum 0.7),
                    (''include_sources'', JBool True)])
    \<and> endpoint (chatAPI_query ls (trim (input s)) 0.7 True) = ChatQuery
    \<and> (\<forall>kvs. outcome = Inr (JObj kvs) \<longrightarrow>
          messages (fst (handleSendMessage ls ev outcome s)) =
            messages s @ [user_message (trim (input s)),
              \<lparr>role = Assistant, content = map_of (rev kvs) ''response'',
               sources = map_of (rev kvs) ''sources''\<rparr>])"
proof -
  have blocked: "\<not> send_blocked s"
    using assms by (simp add: send_blocked_def)
  have requests: "[r. Request r \<leftarrow> fst (snd (handleSendMessage ls ev outcome s))]
        = [chatAPI_query ls (trim (input s)) 0.7 True]"
    using blocked send_settle_sends_nothing [of outcome "send_start s"]
    by (simp add: handleSendMessage_def split_beta)
  have answer: "messages (fst (handleSendMessage ls ev (Inr (JObj kvs)) s)) =
      messages s @ [user_message (trim (input s)),
        \<lparr>role = Assistant, content = map_of (rev kvs) ''response'',
         sources = map_of (rev kvs) ''sources''\<rparr>]" for kvs
    using blocked by (simp add: handleSendMessage_def send_settle_object send_start_def)
  show ?thesis
    using requests answer by (simp add: chatAPI_query_def api_post_def)
qed

theorem query_body_and_response_field_witness:
  "[r. Request r \<leftarrow> fst (snd (handleSendMessage Map.empty True
        (Inr (JObj [(''response'', JStr ''Paris''), (''sources'', JArr [])]))
        \<lparr>messages = [], input = '' capital? '', loading = False\<rparr>))]
     = [\<lparr>verb = POST, endpoint = ChatQuery,
         body = Some (JObj [(''query'', JStr ''capital?''), (''temperature'', JNum 0.7),
                            (''include_sources'', JBool True)]),
         authorization = None\<rparr>]
   \<and> messages (fst (handleSendMessage Map.empty True
        (Inr (JObj [(''response'', JStr ''Paris''), (''sources'', JArr [])]))
        \<lparr>messages = [], input = '' capital? '', loading = False\<rparr>))
     = [\<lparr>role = User, content = Some (JStr ''capital?''), sources = None\<rparr>,
        \<lparr>role = Assistant, content = Some (JStr ''Paris''), sources = Some (JArr [])\<rparr>]"
  using query_body_and_response_field [of "\<lparr>messages = [], input = '' capital? '', loading = False\<rparr>"
      Map.empty True "Inr (JObj [(''response'', JStr ''Paris''), (''sources'', JArr [])])"]
  by (simp add: trim_def is_space_def chatAPI_query_def api_post_def bearer_def user_message_def)

text \<open>
  Where claim C1 fails as stated: a response that carries the answer in a field named
  \<open>answer_text\<close>, next to \<open>sources\<close>. The assistant message the handler appends has
  no content (\<open>undefined\<close>), not the answer.
\<close>

theorem answer_text_field_is_not_read:
  "content (last (messages (fst (handleSendMessage Map.empty True
        (Inr (JObj [(''answer_text'', JStr ''Paris''), (''sources'', JArr [])]))
        \<lparr>messages = [], input = ''capital?'', loading = False\<rparr>)))) = None
   \<and> content (last (messages (fst (handleSendMessage Map.empty True
        (Inr (JObj [(''answer_text'', JStr ''Paris''), (''sources'', JArr [])]))
        \<lparr>messages = [], input = ''capital?'', loading = False\<rparr>)))) \<noteq> Some (JStr ''Paris'')"
  by (simp add: handleSendMessage_def send_blocked_def send_settle_def send_start_def
      trim_def is_space_def)

text \<open>
  Claim C3. When the query call rejects, the handler returns normally: the state it
  leaves has the user's message and then the failure message, an assistant message with
  the fixed text, appended to the messages there were; the loading flag is false; the
  rejection is logged and not thrown. Settling a rejection only appends to the list as
  it is then, so it removes no message whatever the state.
\<close>

theorem rejected_query_gets_failure_message:
  assumes "trim (input s) \<noteq> []" and "\<not> loading s"
  shows "handleSendMessage ls ev (Inl err) s =
      (s\<lparr>messages := messages s @ [user_message (trim (input s)), failure_message],
         input := [], loading := False\<rparr>,
       (if ev then [PreventDefault] else []) @
         [Request (chatAPI_query ls (trim (input s)) 0.7 True), ConsoleError ''Error sending message:''],
       Returned)
    \<and> last (messages (fst (handleSendMessage ls ev (Inl err) s))) = failure_message
    \<and> role failure_message = Assistant
    \<and> content failure_message =
        Some (JStr ''Sorry, there was an error processing your message. Please try again.'')
    \<and> user_message (trim (input s)) \<in> set (messages (fst (handleSendMessage ls ev (Inl err) s)))
    \<and> loading (fst (handleSendMessage ls ev (Inl err) s)) = False
    \<and> snd (snd (handleSendMessage ls ev (Inl err) s)) = Returned
    \<and> (\<forall>s'. fst (send_settle (Inl err) s') =
          s'\<lparr>messages := messages s' @ [failure_message], loading := False\<rparr>)"
  using assms
  by (simp add: handleSendMessage_def send_blocked_def send_settle_rejected send_start_def
      failure_message_def)

theorem rejected_query_gets_failure_message_witness:
  "handleSendMessage Map.empty False (Inl (ApiError None))
      \<lparr>messages = [], input = ''hello'', loading = False\<rparr>
     = (\<lparr>messages =
           [\<lparr>role = User, content = Some (JStr ''hello''), sources = None\<rparr>,
            \<lparr>role = Assistant,
             content = Some (JStr ''Sorry, there was an error processing your message. Please try again.''),
             sources = None\<rparr>],
         input = [], loading = False\<rparr>,
        [Request \<lparr>verb = POST, endpoint = ChatQuery,
           body = Some (JObj [(''query'', JStr ''hello''), (''temperature'', JNum 0.7),
                              (''include_sources'', JBool True)]),
           authorization = None\<rparr>,
         ConsoleError ''Error sending message:''],
        Returned)"
  using rejected_query_gets_failure_message [of "\<lparr>messages = [], input = ''hello'', loading = False\<rparr>"
      Map.empty False "ApiError None"]
  by (simp add: trim_def is_space_def chatAPI_query_def api_post_def bearer_def user_message_def
      failure_message_def)

text \<open>
  Claim C8. When the trimmed input is empty or a query is in flight, the handler
  returns at once: the state is the one it was called in, so the messages, the input
  and the loading flag are unchanged, and no request is among its effects (only the
  event's \<open>preventDefault\<close>, when an event was passed).
\<close>

theorem blocked_send_changes_nothing:
  assumes "trim (input s) = [] \<or> loading s"
  shows "handleSendMessage ls ev outcome s = (s, (if ev then [PreventDefault] else []), Returned)
    \<and> messages (fst (handleSendMessage ls ev outcome s)) = messages s
    \<and> input (fst (handleSendMessage ls ev outcome s)) = input s
    \<and> loading (fst (handleSendMessage ls ev outcome s)) = loading s
    \<and> (\<forall>r. Request r \<notin> set (fst (snd (handleSendMessage ls ev outcome s))))"
  using assms by (simp add: handleSendMessage_def send_blocked_def)

theorem blocked_send_changes_nothing_witness:
  "handleSendMessage Map.empty True (Inr (JObj [(''response'', JStr ''ok'')]))
      \<lparr>messages = [], input = ''  '', loading = False\<rparr>
     = (\<lparr>messages = [], input = ''  '', loading = False\<rparr>, [PreventDefault], Returned)
   \<and> handleSendMessage Map.empty False (Inr (JObj [(''response'', JStr ''ok'')]))
      \<lparr>messages = [user_message ''first''], input = ''second'', loading = True\<rparr>
     = (\<lparr>messages = [user_message ''first''], input = ''second'', loading = True\<rparr>, [], Returned)"
  using blocked_send_changes_nothing [of "\<lparr>messages = [], input = ''  '', loading = False\<rparr>"
      Map.empty True "Inr (JObj [(''response'', JStr ''ok'')])"]
    blocked_send_changes_nothing [of "\<lparr>messages = [user_message ''first''], input = ''second'', loading = True\<rparr>"
      Map.empty False "Inr (JObj [(''response'', JStr ''ok'')])"]
  by (simp add: trim_def is_space_def)

section \<open>Properties of the auth store\<close>




text \<open>
  The other way \<open>login\<close> can fail: the login call resolves without a user and the
  \<open>getMe\<close> that follows rejects. The token was stored and set before, and stays.
\<close>

lemma login_then_rejected_getMe_keeps_new_token:
  "login uname password (Inr \<lparr>access_token = t, login_user = None\<rparr>) (Inl err) (st, ls) =
      ((st\<lparr>token := Some t, error := Some (detail_or err ''Login failed''), isLoading := False\<rparr>,
        ls(''access_token'' \<mapsto> t)),
       [Request (authAPI_login ls uname password),
        Request (authAPI_getMe (ls(''access_token'' \<mapsto> t)))],
       Threw err)"
  by (simp add: login_def login_failed_def Let_def)

text \<open>
  Claim C10. \<open>checkAuth\<close> in its three cases. With no \<open>access_token\<close> in the storage
  (or an empty one) it returns at once: store and storage are unchanged and nothing is
  sent. With a token, when \<open>getMe\<close> succeeds the store gets the user returned and the
  token read, and the storage is unchanged; when \<open>getMe\<close> fails the token is removed
  from the storage and the store's user and token are both cleared, so no token that
  failed validation stays in either. The action returns in every case.
\<close>

theorem checkAuth_cases:
  "(ls ''access_token'' = None \<or> ls ''access_token'' = Some [] \<longrightarrow>
        checkAuth me_outcome (st, ls) = ((st, ls), [], Returned))
   \<and> (ls ''access_token'' = Some t \<and> t \<noteq> [] \<longrightarrow>
        checkAuth (Inr u) (st, ls) =
          ((st\<lparr>user := Some u, token := Some t\<rparr>, ls), [Request (authAPI_getMe ls)], Returned))
   \<and> (ls ''access_token'' = Some t \<and> t \<noteq> [] \<longrightarrow>
        checkAuth (Inl err) (st, ls) =
          ((st\<lparr>user := None, token := None\<rparr>, ls(''access_token'' := None)),
           [Request (authAPI_getMe ls)], Returned)
        \<and> token (fst (fst (checkAuth (Inl err) (st, ls)))) = None
        \<and> user (fst (fst (checkAuth (Inl err) (st, ls)))) = None
        \<and> snd (fst (checkAuth (Inl err) (st, ls))) ''access_token'' = None)"
  by (auto simp add: checkAuth_def authAPI_logout_def)

theorem checkAuth_cases_witness:
  "checkAuth (Inl (ApiError None))
       (\<lparr>user = None, token = None, isLoading = False, error = None\<rparr>, Map.empty)
     = ((\<lparr>user = None, token = None, isLoading = False, error = None\<rparr>, Map.empty), [], Returned)
   \<and> checkAuth
       (Inr \<lparr>user_id = 1, email = ''ada@example.com'', username = ''ada'', full_name = ''Ada'',
             is_active = True, user_created_at = ''2025-12-10''\<rparr>)
       (\<lparr>user = None, token = None, isLoading = False, error = None\<rparr>, [''access_token'' \<mapsto> ''jwt''])
     = ((\<lparr>user = Some \<lparr>user_id = 1, email = ''ada@example.com'', username = ''ada'',
                      full_name = ''Ada'', is_active = True, user_created_at = ''2025-12-10''\<rparr>,
          token = Some ''jwt'', isLoading = False, error = None\<rparr>,
         [''access_token'' \<mapsto> ''jwt'']),
        [Request \<lparr>verb = GET, endpoint = AuthMe, body = None, authorization = Some ''Bearer jwt''\<rparr>],
        Returned)
   \<and> fst (checkAuth (Inl (ApiError (Some (JStr ''expired''))))
       (\<lparr>user = None, token = Some ''jwt'', isLoading = False, error = None\<rparr>,
        [''access_token'' \<mapsto> ''jwt'']))
     = (\<lparr>user = None, token = None, isLoading = False, error = None\<rparr>, Map.empty)"
  using
    checkAuth_cases [where ls = Map.empty and me_outcome = "Inl (ApiError None)"
      and st = "\<lparr>user = None, token = None, isLoading = False, error = None\<rparr>"]
    checkAuth_cases [where ls = "[''access_token'' \<mapsto> ''jwt'']" and t = "''jwt''"
      and u = "\<lparr>user_id = 1, email = ''ada@example.com'', username = ''ada'', full_name = ''Ada'',
        is_active = True, user_created_at = ''2025-12-10''\<rparr>"
      and st = "\<lparr>user = None, token = None, isLoading = False, error = None\<rparr>"]
    checkAuth_cases [where ls = "[''access_token'' \<mapsto> ''jwt'']" and t = "''jwt''"
      and st = "\<lparr>user = None, token = Some ''jwt'', isLoading = False, error = None\<rparr>"
      and err = "ApiError (Some (JStr ''expired''))"]
  by (simp add: authAPI_getMe_def api_get_def bearer_def)

section \<open>Properties of the documents page\<close>

text \<open>
  The statuses of the guide's page are among \<open>pending\<close>, \<open>processing\<close>,
  \<open>indexed\<close> and \<open>failed\<close>.
\<close>

lemma guide_status_within_the_four:
  "guide_status_text g \<in> {''pending'', ''processing'', ''indexed'', ''failed''}"
  by (cases g) simp_all

text \<open>
  Claim C2, as the code has it. The page shows the status of a document as the string
  it received, unchecked. The strings it handles as a status, with an icon of their
  own, are exactly \<open>pending\<close>, \<open>processing\<close>, \<open>completed\<close>, \<open>indexed\<close> and
  \<open>failed\<close>, where \<open>completed\<close> and \<open>indexed\<close> share the check mark; every other
  string gets the fallback icon. The values of the type the page declares are
  \<open>pending\<close>, \<open>processing\<close>, \<open>completed\<close> and \<open>failed\<close>, each among those handled.
\<close>

theorem status_values_the_page_handles:
  "status_shown doc = processing_status doc
   \<and> (getStatusIcon s \<noteq> ClockStill \<longleftrightarrow>
        s \<in> {''pending'', ''processing'', ''completed'', ''indexed'', ''failed''})
   \<and> getStatusIcon ''completed'' = CheckCircle
   \<and> getStatusIcon ''indexed'' = CheckCircle
   \<and> status_text st \<in> {''pending'', ''processing'', ''completed'', ''failed''}
   \<and> getStatusIcon (status_text st) \<noteq> ClockStill"
proof -
  have handled: "getStatusIcon s \<noteq> ClockStill \<longleftrightarrow>
      s \<in> {''pending'', ''processing'', ''completed'', ''indexed'', ''failed''}"
    by (simp add: getStatusIcon_def)
  have declared: "status_text st \<in> {''pending'', ''processing'', ''completed'', ''failed''}"
    by (cases st) simp_all
  have icon: "getStatusIcon (status_text st) \<noteq> ClockStill"
    by (cases st) (simp_all add: getStatusIcon_def)
  show ?thesis
    using handled declared icon by (simp add: status_shown_def getStatusIcon_def)
qed

theorem status_values_the_page_handles_witness:
  "status_shown \<lparr>doc_id = 1, filename = ''notes.txt'', file_size = Some 1200,
       processing_status = ''completed'', chunk_count = 3, error_message = None,
       created_at = ''2025-12-10''\<rparr> = ''completed''
   \<and> getStatusIcon ''completed'' \<noteq> ClockStill
   \<and> getStatusIcon ''archived'' = ClockStill
   \<and> status_text Completed = ''completed''"
  using status_values_the_page_handles [where doc = "\<lparr>doc_id = 1, filename = ''notes.txt'',
       file_size = Some 1200, processing_status = ''completed'', chunk_count = 3,
       error_message = None, created_at = ''2025-12-10''\<rparr>" and s = "''completed''"
       and st = Completed]
    status_values_the_page_handles [where s = "''archived''"]
  by (simp add: getStatusIcon_def)

text \<open>
  Where claim C2 fails as stated: a document whose status is \<open>completed\<close>, a value of
  the declared type that the page handles with the check mark, shows a status outside
  \<open>pending\<close>, \<open>processing\<close>, \<open>indexed\<close>, \<open>failed\<close>.
\<close>

theorem completed_is_outside_the_four:
  "status_shown \<lparr>doc_id = 1, filename = ''notes.txt'', file_size = Some 1200,
       processing_status = status_text Completed, chunk_count = 3, error_message = None,
       created_at = ''2025-12-10''\<rparr>
     \<notin> {''pending'', ''processing'', ''indexed'', ''failed''}
   \<and> getStatusIcon (status_shown \<lparr>doc_id = 1, filename = ''notes.txt'', file_size = Some 1200,
       processing_status = status_text Completed, chunk_count = 3, error_message = None,
       created_at = ''2025-12-10''\<rparr>) = CheckCircle"
  by (simp add: status_shown_def getStatusIcon_def)

text \<open>
  Claim C4, as the code has it. The page offers the reindex action for a document
  exactly when its status is \<open>failed\<close>. Every document it offers the action for meets
  the precondition of the boundary (\<open>failed\<close> or \<open>indexed\<close>); the request the action
  sends is the POST to the document's reindex route, sent with no check of its own.
\<close>

theorem reindex_offered_for_failed_only:
  "(reindex_offered doc \<longleftrightarrow> processing_status doc = ''failed'')
   \<and> (reindex_offered doc \<longrightarrow> reindex_permitted (processing_status doc))
   \<and> reindex_action ls doc =
       (if processing_status doc = ''failed'' then Some (documentAPI_reindex ls (doc_id doc))
        else None)"
  by (simp add: reindex_offered_def reindex_permitted_def reindex_action_def)

theorem reindex_offered_for_failed_only_witness:
  "reindex_offered \<lparr>doc_id = 7, filename = ''scan.pdf'', file_size = None,
       processing_status = ''failed'', chunk_count = 0, error_message = Some ''no extractable content'',
       created_at = ''2025-12-10''\<rparr>
   \<and> reindex_permitted ''failed''
   \<and> reindex_action Map.empty \<lparr>doc_id = 7, filename = ''scan.pdf'', file_size = None,
       processing_status = ''failed'', chunk_count = 0, error_message = Some ''no extractable content'',
       created_at = ''2025-12-10''\<rparr>
     = Some \<lparr>verb = POST, endpoint = DocumentsReindex 7, body = Some (JObj []), authorization = None\<rparr>"
  using reindex_offered_for_failed_only [of "\<lparr>doc_id = 7, filename = ''scan.pdf'', file_size = None,
       processing_status = ''failed'', chunk_count = 0, error_message = Some ''no extractable content'',
       created_at = ''2025-12-10''\<rparr>" Map.empty]
  by (simp add: documentAPI_reindex_def api_post_def bearer_def)

text \<open>
  Where claim C4 fails as stated: a document whose status is \<open>indexed\<close> meets the
  precondition of the boundary, and the page offers no reindex action for it; nor does
  it for one whose status is \<open>completed\<close>.
\<close>

theorem indexed_document_is_not_offered_reindex:
  "reindex_permitted (processing_status \<lparr>doc_id = 1, filename = ''notes.txt'', file_size = Some 1200,
       processing_status = ''indexed'', chunk_count = 3, error_message = None,
       created_at = ''2025-12-10''\<rparr>)
   \<and> \<not> reindex_offered \<lparr>doc_id = 1, filename = ''notes.txt'', file_size = Some 1200,
       processing_status = ''indexed'', chunk_count = 3, error_message = None,
       created_at = ''2025-12-10''\<rparr>
   \<and> reindex_action Map.empty \<lparr>doc_id = 1, filename = ''notes.txt'', file_size = Some 1200,
       processing_status = ''indexed'', chunk_count = 3, error_message = None,
       created_at = ''2025-12-10''\<rparr> = None
   \<and> \<not> reindex_offered \<lparr>doc_id = 1, filename = ''notes.txt'', file_size = Some 1200,
       processing_status = ''completed'', chunk_count = 3, error_message = None,
       created_at = ''2025-12-10''\<rparr>"
  by (simp add: reindex_permitted_def reindex_offered_def reindex_action_def)

section \<open>Properties of the chunker\<close>

lemma windows_step:
  "s \<noteq> [] \<Longrightarrow> overlap < chunk_size \<Longrightarrow>
     windows chunk_size overlap s =
       take chunk_size s # windows chunk_size overlap (drop (chunk_size - overlap) s)"
  by (subst windows.simps) simp

lemma windows_Nil: "windows chunk_size overlap [] = []"
  by (subst windows.simps) simp

text \<open>
  Without their first \<open>overlap\<close> characters, the windows of a text make up the text
  without its first \<open>overlap\<close> characters: by induction along the recursion of
  \<open>windows\<close>.
\<close>

lemma drop_overlap_windows:
  assumes "overlap < chunk_size"
  shows "concat (map (drop overlap) (windows chunk_size overlap s)) = drop overlap s"
  using assms
proof (induction chunk_size overlap s rule: windows.induct)
  case (1 chunk_size overlap s)
  show ?case
  proof (cases "s = []")
    case True
    then show ?thesis by (simp add: windows_Nil)
  next
    case False
    with "1.prems" have IH:
      "concat (map (drop overlap) (windows chunk_size overlap (drop (chunk_size - overlap) s)))
        = drop overlap (drop (chunk_size - overlap) s)"
      using "1.IH" by simp
    have "drop overlap (take chunk_size s) @ drop chunk_size s = drop overlap s"
    proof -
      have "drop overlap s = drop overlap (take chunk_size s @ drop chunk_size s)"
        by simp
      also have "\<dots> = drop overlap (take chunk_size s)
          @ drop (overlap - length (take chunk_size s)) (drop chunk_size s)"
        by (simp only: drop_append)
      also have "drop (overlap - length (take chunk_size s)) (drop chunk_size s) = drop chunk_size s"
        using "1.prems" by (cases "chunk_size \<le> length s") simp_all
      finally show ?thesis by simp
    qed
    moreover have "drop overlap (drop (chunk_size - overlap) s) = drop chunk_size s"
      using "1.prems" by simp
    ultimately show ?thesis
      using False "1.prems" IH by (simp add: windows_step)
  qed
qed

lemma reassemble_windows:
  assumes "overlap < chunk_size"
  shows "reassemble overlap (windows chunk_size overlap s) = s"
proof (cases "s = []")
  case True
  then show ?thesis by (simp add: windows_Nil)
next
  case False
  have "drop overlap (drop (chunk_size - overlap) s) = drop chunk_size s"
    using assms by simp
  then show ?thesis
    using False assms drop_overlap_windows [OF assms, of "drop (chunk_size - overlap) s"]
    by (simp add: windows_step)
qed

lemma positions_tag_chunks: "map position (tag_chunks d texts) = [0..<length texts]"
  by (simp add: tag_chunks_def enumerate_eq_zip comp_def case_prod_beta)

lemma texts_tag_chunks: "map chunk_text (tag_chunks d texts) = texts"
  by (simp add: tag_chunks_def enumerate_eq_zip comp_def case_prod_beta)

text \<open>
  A text of 1200 characters under a window of 512 and an overlap of 50: the windows
  start at 0, 462 and 924, and the next start, 1386, is outside the text.
\<close>

lemma windows_1200:
  assumes "length s = 1200"
  shows "windows 512 50 s = [take 512 s, take 512 (drop 462 s), drop 924 s]"
proof -
  have s0: "s \<noteq> []" using assms by auto
  have s1: "drop 462 s \<noteq> []" using assms by auto
  have s2: "drop 462 (drop 462 s) \<noteq> []" using assms by auto
  have s3: "drop 462 (drop 462 (drop 462 s)) = []" using assms by auto
  have "windows 512 50 s = take 512 s # windows 512 50 (drop 462 s)"
    using windows_step [OF s0, of 50 512] by simp
  also have "windows 512 50 (drop 462 s)
      = take 512 (drop 462 s) # windows 512 50 (drop 462 (drop 462 s))"
    using windows_step [OF s1, of 50 512] by simp
  also have "windows 512 50 (drop 462 (drop 462 s)) =
      take 512 (drop 462 (drop 462 s)) # windows 512 50 (drop 462 (drop 462 (drop 462 s)))"
    using windows_step [OF s2, of 50 512] by simp
  also have "windows 512 50 (drop 462 (drop 462 (drop 462 s))) = []"
    unfolding s3 by (rule windows_Nil)
  finally show ?thesis using assms by simp
qed

text \<open>
  Claim C5. For every text and every configuration with \<open>overlap < chunk_size\<close>,
  \<open>split\<close> returns a sequence of chunk texts (it is a function of its three
  arguments, so equal inputs give the same sequence); the first chunk followed by the
  later chunks without their first \<open>overlap\<close> characters is the text; the positions
  of the chunks are 0, 1, ... up to their number. A text of 1200 characters with
  \<open>chunk_size = 512\<close> and \<open>overlap = 50\<close> gives exactly three chunks, at positions
  0, 1 and 2.
\<close>

theorem split_reconstructs_text:
  assumes "overlap < chunk_size"
  shows "(\<exists>texts. split s chunk_size overlap = Inr texts
            \<and> reassemble overlap texts = s
            \<and> map position (tag_chunks d texts) = [0..<length texts]
            \<and> map chunk_text (tag_chunks d texts) = texts)
    \<and> (length s = 1200 \<longrightarrow>
          split s 512 50 = Inr [take 512 s, take 512 (drop 462 s), drop 924 s]
          \<and> map position (tag_chunks d [take 512 s, take 512 (drop 462 s), drop 924 s])
              = [0, 1, 2])"
proof -
  have "split s chunk_size overlap = Inr (windows chunk_size overlap s)"
    using assms by (simp add: split_def)
  moreover have "split s 512 50 = Inr [take 512 s, take 512 (drop 462 s), drop 924 s]"
    if "length s = 1200"
    using windows_1200 [OF that] by (simp add: split_def)
  moreover have "map position (tag_chunks d [a, b, c]) = [0, 1, 2]" for a b c
    by (simp add: tag_chunks_def enumerate_eq_zip upt_rec)
  ultimately show ?thesis
    using reassemble_windows [OF assms] positions_tag_chunks texts_tag_chunks by auto
qed

theorem split_reconstructs_text_witness:
  "split ''abcdefghij'' 4 1 = Inr [''abcd'', ''defg'', ''ghij'', ''j'']
   \<and> reassemble 1 [''abcd'', ''defg'', ''ghij'', ''j''] = ''abcdefghij''
   \<and> map position (tag_chunks 5 [''abcd'', ''defg'', ''ghij'', ''j'']) = [0, 1, 2, 3]
   \<and> length (replicate 1200 CHR ''x'') = 1200
   \<and> split (replicate 1200 CHR ''x'') 512 50 =
       Inr [replicate 512 CHR ''x'', replicate 512 CHR ''x'', replicate 276 CHR ''x'']"
proof -
  have a: "split ''abcdefghij'' 4 1 = Inr [''abcd'', ''defg'', ''ghij'', ''j'']"
    by (simp add: split_def windows_step windows_Nil)
  have b: "map position (tag_chunks 5 [''abcd'', ''defg'', ''ghij'', ''j'']) = [0, 1, 2, 3]"
    by (simp add: tag_chunks_def enumerate_eq_zip upt_rec)
  have c: "length (replicate 1200 CHR ''x'') = 1200"
    by simp
  have d: "split (replicate 1200 CHR ''x'') 512 50 =
       Inr [replicate 512 CHR ''x'', replicate 512 CHR ''x'', replicate 276 CHR ''x'']"
    using windows_1200 [OF c] by (simp add: split_def min_def)
  show ?thesis
    using split_reconstructs_text [of 1 4 "''abcdefghij''" 5]
      split_reconstructs_text [of 50 512 "replicate 1200 CHR ''x''" 5] a b c d
    by simp
qed

section \<open>Properties of the retrieved sources\<close>

lemma fitting_is_take: "\<exists>n. fitting limit used ms = take n ms"
proof (induction ms arbitrary: used)
  case Nil
  then show ?case by simp
next
  case (Cons m ms)
  show ?case
  proof (cases "used + length (context_entry m) \<le> limit")
    case True
    from Cons.IH obtain n where "fitting limit (used + length (context_entry m)) ms = take n ms"
      by blast
    with True have "fitting limit used (m # ms) = take (Suc n) (m # ms)"
      by simp
    then show ?thesis by blast
  next
    case False
    then have "fitting limit used (m # ms) = take 0 (m # ms)"
      by simp
    then show ?thesis by blast
  qed
qed

lemma included_is_take: "\<exists>n. included limit ms = take n ms"
proof (cases ms)
  case Nil
  then show ?thesis by (simp add: included_def)
next
  case (Cons m rest)
  show ?thesis
  proof (cases "limit < length (context_entry m)")
    case True
    with Cons have "included limit ms = take 1 ms"
      by (simp add: included_def)
    then show ?thesis by blast
  next
    case False
    with Cons have "included limit ms = fitting limit 0 ms"
      by (simp add: included_def)
    then show ?thesis using fitting_is_take [of limit 0 ms] by simp
  qed
qed

lemma sort_key_descending:
  "sorted_wrt (\<lambda>a b. score b \<le> score a) (sort_key (\<lambda>m. - score m) ms)"
proof -
  have "sorted (map (\<lambda>m. - score m) (sort_key (\<lambda>m. - score m) ms))"
    by (rule sorted_sort_key)
  then show ?thesis
    by (simp add: sorted_wrt_map)
qed

lemma index_query_descending:
  "sorted_wrt (\<lambda>a b. score b \<le> score a) (index_query sim idx ns qv top_k min_score)"
  unfolding index_query_def by (rule sorted_wrt_take) (rule sort_key_descending)

lemma eligible_threshold: "m \<in> set (eligible sim idx ns qv min_score) \<Longrightarrow> min_score \<le> score m"
  by (simp add: eligible_def)

lemma index_query_subset:
  "set (index_query sim idx ns qv top_k min_score) \<subseteq> set (eligible sim idx ns qv min_score)"
proof -
  have "set (index_query sim idx ns qv top_k min_score)
      \<subseteq> set (sort_key (\<lambda>m. - score m) (eligible sim idx ns qv min_score))"
    unfolding index_query_def by (rule set_take_subset)
  then show ?thesis by simp
qed

lemma index_query_length:
  "length (index_query sim idx ns qv top_k min_score)
     = min top_k (length (eligible sim idx ns qv min_score))"
  by (simp add: index_query_def min.commute)

text \<open>
  Claim C6. For every index, namespace, query vector, top-K, minimum score and context
  limit, the retrieved sources are at most top-K; each has a relevance score of at
  least the minimum; they are in descending order of relevance score; they are no more
  than the records that satisfy the threshold and each of them is such a record, so
  nothing is padded. The index query itself returns exactly top-K records, or all that
  satisfy the threshold when these are fewer.
\<close>

theorem retrieved_sources_bounded_sorted:
  fixes sim :: "'v \<Rightarrow> 'v \<Rightarrow> real" and idx :: "('v, 'x) vector_record_scheme list"
  shows "length (retrieved_sources sim idx ns qv top_k min_score limit) \<le> top_k
    \<and> (\<forall>e \<in> set (retrieved_sources sim idx ns qv top_k min_score limit).
          min_score \<le> relevance_score e)
    \<and> sorted_wrt (\<lambda>a b. relevance_score b \<le> relevance_score a)
          (retrieved_sources sim idx ns qv top_k min_score limit)
    \<and> length (retrieved_sources sim idx ns qv top_k min_score limit)
          \<le> length (eligible sim idx ns qv min_score)
    \<and> set (retrieved_sources sim idx ns qv top_k min_score limit)
          \<subseteq> to_source ` set (eligible sim idx ns qv min_score)
    \<and> length (index_query sim idx ns qv top_k min_score)
          = min top_k (length (eligible sim idx ns qv min_score))"
proof -
  define q where "q = index_query sim idx ns qv top_k min_score"
  obtain n where inc: "included limit q = take n q"
    using included_is_take by blast
  have rs: "retrieved_sources sim idx ns qv top_k min_score limit = map to_source (take n q)"
    by (simp add: retrieved_sources_def q_def [symmetric] inc)
  have len_q: "length q = min top_k (length (eligible sim idx ns qv min_score))"
    unfolding q_def by (rule index_query_length)
  have sub: "set (take n q) \<subseteq> set (eligible sim idx ns qv min_score)"
    using set_take_subset [of n q] index_query_subset [of sim idx ns qv top_k min_score]
    unfolding q_def by blast
  have "sorted_wrt (\<lambda>a b. score b \<le> score a) (take n q)"
    unfolding q_def by (rule sorted_wrt_take) (rule index_query_descending)
  then have sorted:
    "sorted_wrt (\<lambda>a b. relevance_score b \<le> relevance_score a) (map to_source (take n q))"
    by (simp add: sorted_wrt_map to_source_def)
  have thr: "\<forall>e \<in> set (map to_source (take n q)). min_score \<le> relevance_score e"
    using sub eligible_threshold [of _ sim idx ns qv min_score]
    by (auto simp: to_source_def)
  have l1: "length (map to_source (take n q)) \<le> top_k"
    using len_q by simp
  have l2: "length (map to_source (take n q)) \<le> length (eligible sim idx ns qv min_score)"
    using len_q by simp
  have s2: "set (map to_source (take n q)) \<subseteq> to_source ` set (eligible sim idx ns qv min_score)"
    using sub by auto
  show ?thesis
    unfolding rs using l1 thr sorted l2 s2 len_q [unfolded q_def] by blast
qed

theorem retrieved_sources_bounded_sorted_witness:
  "retrieved_sources (\<lambda>q e. q * e)
      [\<lparr>vector_id = ''1:0'', namespace = ''u1'', embedding = 0.9,
         metadata = \<lparr>meta_document_id = 1, meta_filename = ''a.txt'',
                      meta_chunk_text = ''alpha'', meta_position = 0\<rparr>\<rparr>,
       \<lparr>vector_id = ''1:1'', namespace = ''u1'', embedding = 0.3,
         metadata = \<lparr>meta_document_id = 1, meta_filename = ''a.txt'',
                      meta_chunk_text = ''beta'', meta_position = 1\<rparr>\<rparr>,
       \<lparr>vector_id = ''2:0'', namespace = ''u1'', embedding = 0.7,
         metadata = \<lparr>meta_document_id = 2, meta_filename = ''b.txt'',
                      meta_chunk_text = ''gamma'', meta_position = 0\<rparr>\<rparr>,
       \<lparr>vector_id = ''3:0'', namespace = ''u2'', embedding = 0.95,
         metadata = \<lparr>meta_document_id = 3, meta_filename = ''c.txt'',
                      meta_chunk_text = ''delta'', meta_position = 0\<rparr>\<rparr>]
      ''u1'' 1 5 0.5 100
     = [\<lparr>source_document_id = 1, source_filename = ''a.txt'', relevance_score = 0.9,
         source_text = ''alpha''\<rparr>,
        \<lparr>source_document_id = 2, source_filename = ''b.txt'', relevance_score = 0.7,
         source_text = ''gamma''\<rparr>]
   \<and> (0.5 :: real) \<le> 0.9 \<and> (0.5 :: real) \<le> 0.7 \<and> (2 :: nat) \<le> 5"
  using retrieved_sources_bounded_sorted [of "\<lambda>q e. q * e"
      "[\<lparr>vector_id = ''1:0'', namespace = ''u1'', embedding = 0.9,
         metadata = \<lparr>meta_document_id = 1, meta_filename = ''a.txt'',
                      meta_chunk_text = ''alpha'', meta_position = 0\<rparr>\<rparr>,
       \<lparr>vector_id = ''1:1'', namespace = ''u1'', embedding = 0.3,
         metadata = \<lparr>meta_document_id = 1, meta_filename = ''a.txt'',
                      meta_chunk_text = ''beta'', meta_position = 1\<rparr>\<rparr>,
       \<lparr>vector_id = ''2:0'', namespace = ''u1'', embedding = 0.7,
         metadata = \<lparr>meta_document_id = 2, meta_filename = ''b.txt'',
                      meta_chunk_text = ''gamma'', meta_position = 0\<rparr>\<rparr>,
       \<lparr>vector_id = ''3:0'', namespace = ''u2'', embedding = 0.95,
         metadata = \<lparr>meta_document_id = 3, meta_filename = ''c.txt'',
                      meta_chunk_text = ''delta'', meta_position = 0\<rparr>\<rparr>]"
      "''u1''" 1 5 "0.5" 100]
  by (simp add: retrieved_sources_def index_query_def eligible_def scored_def included_def
      context_entry_def to_source_def)

end
